theory Spec2Isabelle
  imports Main "HOL-Library.Char_ord" "HOL-Library.List_Lexorder" "HOL-Library.Sublist"
begin

section \<open>Numbers in template literals\<close>

text \<open>
  Both components interpolate integers into strings (\<^verbatim>\<open>`${minutes} minute...`\<close>,
  \<^verbatim>\<open>`Jira API error: ${response.status}`\<close>, \<^verbatim>\<open>`&maxResults=${maxResults}`\<close>).
  For an integer the interpolation is its decimal numeral, with a leading minus sign
  for a negative one.
\<close>

definition digit_char :: "nat \<Rightarrow> char" where
  "digit_char d =
     (if d = 0 then CHR ''0'' else if d = 1 then CHR ''1'' else if d = 2 then CHR ''2''
      else if d = 3 then CHR ''3'' else if d = 4 then CHR ''4'' else if d = 5 then CHR ''5''
      else if d = 6 then CHR ''6'' else if d = 7 then CHR ''7'' else if d = 8 then CHR ''8''
      else CHR ''9'')"

fun string_of_nat :: "nat \<Rightarrow> string" where
  "string_of_nat n =
     (if n < 10 then [digit_char n]
      else string_of_nat (n div 10) @ [digit_char (n mod 10)])"

declare string_of_nat.simps [simp del]

definition string_of_int :: "int \<Rightarrow> string" where
  "string_of_int i =
     (if i < 0 then CHR ''-'' # string_of_nat (nat (- i)) else string_of_nat (nat i))"

section \<open>The relative-time label\<close>

text \<open>
  \<^verbatim>\<open>formatTimeAgo\<close> of the issue card. \<^verbatim>\<open>Date.now()\<close> is the parameter \<open>now\<close>;
  timestamps are integer milliseconds, and \<^verbatim>\<open>Math.floor(a / b)\<close> on them is
  \<open>div\<close>, which rounds towards minus infinity on \<open>int\<close>.
\<close>

definition formatTimeAgo :: "int \<Rightarrow> int \<Rightarrow> string" where
  "formatTimeAgo now timestamp =
     (let seconds = (now - timestamp) div 1000 in
      if seconds < 60 then ''just now''
      else
        let minutes = seconds div 60 in
        if minutes < 60
        then string_of_int minutes @ '' minute'' @ (if minutes > 1 then ''s'' else '''') @ '' ago''
        else
          let hours = minutes div 60 in
          if hours < 24
          then string_of_int hours @ '' hour'' @ (if hours > 1 then ''s'' else '''') @ '' ago''
          else
            let days = hours div 24 in
            string_of_int days @ '' day'' @ (if days > 1 then ''s'' else '''') @ '' ago'')"

text \<open>
  The label as the specification words it: a count, a unit that takes a plural
  \<open>s\<close> when the count exceeds one, and the word \<open>ago\<close>.
\<close>

definition ago_label :: "int \<Rightarrow> string \<Rightarrow> string" where
  "ago_label n unit = string_of_int n @ '' '' @ unit @ (if n > 1 then ''s'' else '''') @ '' ago''"

definition spec_time_label :: "int \<Rightarrow> string" where
  "spec_time_label elapsed =
     (if elapsed < 60 * 1000 then ''just now''
      else if elapsed < 60 * 60 * 1000 then ago_label (elapsed div (60 * 1000)) ''minute''
      else if elapsed < 24 * 60 * 60 * 1000 then ago_label (elapsed div (60 * 60 * 1000)) ''hour''
      else ago_label (elapsed div (24 * 60 * 60 * 1000)) ''day'')"

lemma int_div_less_iff: "0 < b \<Longrightarrow> (a::int) div b < c \<longleftrightarrow> a < c * b"
proof
  assume b: "0 < b" and l: "a div b < c"
  have e: "a = b * (a div b) + a mod b" by simp
  have m: "a mod b < b" using b by simp
  have "b * (a div b) + b \<le> b * c"
  proof -
    have "a div b + 1 \<le> c" using l by simp
    then have "b * (a div b + 1) \<le> b * c" using b by (simp only: mult_le_cancel_left_pos)
    then show ?thesis by (simp add: algebra_simps)
  qed
  with e m have "a < b * c" by linarith
  then show "a < c * b" by (simp add: mult.commute)
next
  assume b: "0 < b" and l: "a < c * b"
  show "a div b < c"
  proof (rule ccontr)
    assume "\<not> a div b < c"
    then have "c \<le> a div b" by simp
    then have "b * c \<le> b * (a div b)" using b by (simp only: mult_le_cancel_left_pos)
    moreover have "a = b * (a div b) + a mod b" by simp
    moreover have "0 \<le> a mod b" using b by simp
    moreover have "a < b * c" using l by (simp add: mult.commute)
    ultimately show False by linarith
  qed
qed

lemma nested_floor_minutes: "(e::int) div 1000 div 60 = e div 60000"
  using zdiv_zmult2_eq [of 60 e 1000] by simp

lemma nested_floor_hours: "(e::int) div 60000 div 60 = e div 3600000"
  using zdiv_zmult2_eq [of 60 e 60000] by simp

lemma nested_floor_days: "(e::int) div 3600000 div 24 = e div 86400000"
  using zdiv_zmult2_eq [of 24 e 3600000] by simp

lemma seconds_lt_iff: "(e::int) div 1000 < 60 \<longleftrightarrow> e < 60000"
  by (simp add: int_div_less_iff)

lemma minutes_lt_iff: "(e::int) div 60000 < 60 \<longleftrightarrow> e < 3600000"
  by (simp add: int_div_less_iff)

lemma hours_lt_iff: "(e::int) div 3600000 < 24 \<longleftrightarrow> e < 86400000"
  by (simp add: int_div_less_iff)

lemma formatTimeAgo_refines: "formatTimeAgo now timestamp = spec_time_label (now - timestamp)"
proof -
  define e where "e = now - timestamp"
  have m: "e div 1000 div 60 = e div 60000"
    and h: "e div 60000 div 60 = e div 3600000"
    and d: "e div 3600000 div 24 = e div 86400000"
    by (rule nested_floor_minutes nested_floor_hours nested_floor_days)+
  have s: "e div 1000 < 60 \<longleftrightarrow> e < 60000"
    and m': "e div 60000 < 60 \<longleftrightarrow> e < 3600000"
    and h': "e div 3600000 < 24 \<longleftrightarrow> e < 86400000"
    by (rule seconds_lt_iff minutes_lt_iff hours_lt_iff)+
  have c: "(60::int) * 1000 = 60000" "(60::int) * 60 * 1000 = 3600000"
    "(24::int) * 60 * 60 * 1000 = 86400000"
    by simp_all
  have "formatTimeAgo now timestamp =
      (if e < 60000 then ''just now''
       else if e < 3600000 then ago_label (e div 60000) ''minute''
       else if e < 86400000 then ago_label (e div 3600000) ''hour''
       else ago_label (e div 86400000) ''day'')"
    unfolding formatTimeAgo_def Let_def e_def [symmetric] m h d s m' h' ago_label_def
    by (simp only: append.simps)
  also have "\<dots> = spec_time_label e"
    unfolding spec_time_label_def c ..
  finally show ?thesis
    by (simp only: e_def)
qed

lemma spec_time_label_cases:
  "spec_time_label e = ''just now'' \<or>
   (\<exists>n unit. 1 \<le> n \<and> unit \<in> {''minute'', ''hour'', ''day''} \<and> spec_time_label e = ago_label n unit)"
proof (cases "e < 60000")
  case True
  then show ?thesis by (simp add: spec_time_label_def)
next
  case False
  then have 1: "1 \<le> e div 60000" "\<not> e div 60000 < 1"
    using int_div_less_iff [of 60000 e 1] by simp_all
  show ?thesis
  proof (cases "e < 3600000")
    case True
    with False have "spec_time_label e = ago_label (e div 60000) ''minute''"
      by (simp add: spec_time_label_def)
    with 1 show ?thesis by blast
  next
    case nh: False
    then have 2: "1 \<le> e div 3600000"
      using int_div_less_iff [of 3600000 e 1] by simp
    show ?thesis
    proof (cases "e < 86400000")
      case True
      with False nh have "spec_time_label e = ago_label (e div 3600000) ''hour''"
        by (simp add: spec_time_label_def)
      with 2 show ?thesis by blast
    next
      case nd: False
      then have 3: "1 \<le> e div 86400000"
        using int_div_less_iff [of 86400000 e 1] by simp
      from False nh nd have "spec_time_label e = ago_label (e div 86400000) ''day''"
        by (simp add: spec_time_label_def)
      with 3 show ?thesis by blast
    qed
  qed
qed

lemma string_of_nat_one: "string_of_nat (Suc 0) = ''1''"
  by (simp add: string_of_nat.simps [of "Suc 0"] digit_char_def)

lemma string_of_nat_two: "string_of_nat 2 = ''2''"
  by (simp add: string_of_nat.simps [of 2] digit_char_def)

text \<open>
  Claim C8. For every timestamp (in particular every past one), with
  \<open>elapsed = now - timestamp\<close> in milliseconds, \<^verbatim>\<open>formatTimeAgo\<close> returns
  \<open>just now\<close> when \<open>elapsed\<close> is under 60 seconds, \<open>N minute(s) ago\<close> with
  \<open>N = \<lfloor>elapsed / 60 s\<rfloor>\<close> when under 60 minutes, \<open>N hour(s) ago\<close> with
  \<open>N = \<lfloor>elapsed / 1 h\<rfloor>\<close> when under 24 hours and \<open>N day(s) ago\<close> otherwise,
  the unit in the plural exactly when \<open>N > 1\<close>; 90 seconds elapsed give
  \<open>1 minute ago\<close> and 3600 seconds elapsed give \<open>1 hour ago\<close> (and two days
  give \<open>2 days ago\<close>).
\<close>

theorem formatTimeAgo_label:
  "formatTimeAgo now timestamp = spec_time_label (now - timestamp) \<and>
   formatTimeAgo now (now - 90 * 1000) = ''1 minute ago'' \<and>
   formatTimeAgo now (now - 3600 * 1000) = ''1 hour ago'' \<and>
   formatTimeAgo now (now - 2 * 24 * 3600 * 1000) = ''2 days ago''"
  by (simp add: formatTimeAgo_refines spec_time_label_def ago_label_def string_of_int_def
      string_of_nat_one string_of_nat_two)

text \<open>
  Claim C10. \<^verbatim>\<open>formatTimeAgo\<close> has no failing branch, so it yields a label for every
  pair of integers. Whenever the timestamp is not at least 60 seconds in the past, also
  when it equals or exceeds the current time, the label is \<open>just now\<close>; and every
  label is either \<open>just now\<close> or counts at least one minute, hour or day, so no
  negative count is ever shown.
\<close>

theorem formatTimeAgo_total_just_now:
  "(now - timestamp < 60 * 1000 \<longrightarrow> formatTimeAgo now timestamp = ''just now'') \<and>
   (formatTimeAgo now timestamp = ''just now'' \<or>
    (\<exists>n unit. 1 \<le> n \<and> unit \<in> {''minute'', ''hour'', ''day''} \<and>
       formatTimeAgo now timestamp = ago_label n unit))"
  using spec_time_label_cases [of "now - timestamp"]
  by (simp add: formatTimeAgo_refines spec_time_label_def)

theorem formatTimeAgo_future_witness:
  "(1000::int) - 5000 < 60 * 1000 \<and> formatTimeAgo 1000 5000 = ''just now'' \<and>
   formatTimeAgo 1000 1000 = ''just now''"
  using formatTimeAgo_total_just_now [of 1000 5000] formatTimeAgo_total_just_now [of 1000 1000]
  by simp

section \<open>The issue card: data\<close>

text \<open>
  The interfaces \<^verbatim>\<open>JiraIssue\<close> and \<^verbatim>\<open>CachedData\<close> of the card. An optional
  property (\<^verbatim>\<open>status?: {name: string}\<close>) is an \<open>option\<close>, \<open>None\<close> standing for
  \<^verbatim>\<open>undefined\<close>. The property \<^verbatim>\<open>fields\<close> is the field \<open>issue_fields\<close>.
  Strings are lists of characters and are compared by character
  code, position by position.
\<close>

record NamedRef =
  name :: string

record Assignee =
  displayName :: string
  emailAddress :: "string option"

record IssueFields =
  summary :: string
  status :: "NamedRef option"
  assignee :: "Assignee option"
  priority :: "NamedRef option"
  issuetype :: "NamedRef option"

record JiraIssue =
  key :: string
  issue_fields :: IssueFields

record CachedData =
  issues :: "JiraIssue list"
  timestamp :: int

text \<open>The four \<^verbatim>\<open>useState\<close> filter selections; the empty string is "all".\<close>

record FilterSelection =
  selectedType :: string
  selectedAssignee :: string
  selectedStatus :: string
  selectedPriority :: string

text \<open>
  The optional chains \<^verbatim>\<open>issue.fields.issuetype?.name\<close> and its three siblings:
  \<^verbatim>\<open>undefined\<close> when the object is absent.
\<close>

definition issuetype_name :: "JiraIssue \<Rightarrow> string option" where
  "issuetype_name issue = map_option name (issuetype (issue_fields issue))"

definition assignee_displayName :: "JiraIssue \<Rightarrow> string option" where
  "assignee_displayName issue = map_option displayName (assignee (issue_fields issue))"

definition status_name :: "JiraIssue \<Rightarrow> string option" where
  "status_name issue = map_option name (status (issue_fields issue))"

definition priority_name :: "JiraIssue \<Rightarrow> string option" where
  "priority_name issue = map_option name (priority (issue_fields issue))"

text \<open>JavaScript truthiness of a string and of a possibly undefined string.\<close>

definition truthy :: "string \<Rightarrow> bool" where
  "truthy s = (s \<noteq> [])"

definition truthy_opt :: "string option \<Rightarrow> bool" where
  "truthy_opt v = (case v of None \<Rightarrow> False | Some s \<Rightarrow> truthy s)"

section \<open>Filtering\<close>

text \<open>
  The callback of \<^verbatim>\<open>issues.filter\<close> in \<^verbatim>\<open>filteredIssues\<close>: four guarded early
  returns of \<^verbatim>\<open>false\<close>, then \<^verbatim>\<open>true\<close>. \<^verbatim>\<open>a !== b\<close> between a possibly
  undefined string and a string is inequality of \<open>Some\<close>-wrapped values.
\<close>

definition filter_callback :: "FilterSelection \<Rightarrow> JiraIssue \<Rightarrow> bool" where
  "filter_callback sel issue =
     (if truthy (selectedType sel) \<and> issuetype_name issue \<noteq> Some (selectedType sel) then False
      else if truthy (selectedAssignee sel) \<and> assignee_displayName issue \<noteq> Some (selectedAssignee sel)
        then False
      else if truthy (selectedStatus sel) \<and> status_name issue \<noteq> Some (selectedStatus sel) then False
      else if truthy (selectedPriority sel) \<and> priority_name issue \<noteq> Some (selectedPriority sel)
        then False
      else True)"

definition filteredIssues :: "JiraIssue list \<Rightarrow> FilterSelection \<Rightarrow> JiraIssue list" where
  "filteredIssues iss sel = filter (filter_callback sel) iss"

text \<open>
  The specification's wording: one predicate per filter field, satisfied when the
  field is left empty or when the issue has the field and it equals the selection;
  the displayed issues satisfy all four.
\<close>

definition field_matches :: "string \<Rightarrow> string option \<Rightarrow> bool" where
  "field_matches selected v = (selected = [] \<or> v = Some selected)"

definition spec_matches :: "FilterSelection \<Rightarrow> JiraIssue \<Rightarrow> bool" where
  "spec_matches sel issue =
     (field_matches (selectedType sel) (issuetype_name issue) \<and>
      field_matches (selectedAssignee sel) (assignee_displayName issue) \<and>
      field_matches (selectedStatus sel) (status_name issue) \<and>
      field_matches (selectedPriority sel) (priority_name issue))"

definition no_filters :: FilterSelection where
  "no_filters = \<lparr>selectedType = [], selectedAssignee = [], selectedStatus = [],
     selectedPriority = []\<rparr>"

text \<open>Issues for examples: only a key and, optionally, a status or a type.\<close>

definition bare_fields :: IssueFields where
  "bare_fields = \<lparr>summary = [], status = None, assignee = None, priority = None,
     issuetype = None\<rparr>"

definition issue_with_status :: "string \<Rightarrow> string \<Rightarrow> JiraIssue" where
  "issue_with_status k s = \<lparr>key = k, issue_fields = bare_fields\<lparr>status := Some \<lparr>name = s\<rparr>\<rparr>\<rparr>"

definition issue_with_type :: "string \<Rightarrow> string \<Rightarrow> JiraIssue" where
  "issue_with_type k t = \<lparr>key = k, issue_fields = bare_fields\<lparr>issuetype := Some \<lparr>name = t\<rparr>\<rparr>\<rparr>"

definition issue_bare :: "string \<Rightarrow> JiraIssue" where
  "issue_bare k = \<lparr>key = k, issue_fields = bare_fields\<rparr>"

lemma filter_callback_spec: "filter_callback sel issue = spec_matches sel issue"
  by (auto simp: filter_callback_def spec_matches_def field_matches_def truthy_def)

text \<open>
  Claim C1. For every loaded issue list and every filter selection, the displayed
  list is the loaded list restricted (in order) to the issues that match every
  non-empty filter field by string equality on the corresponding issue field. An issue
  lacking a field is excluded by any non-empty selection for that field, and the empty
  selection restricts nothing.
\<close>

theorem filteredIssues_spec:
  "filteredIssues iss sel = filter (spec_matches sel) iss \<and>
   set (filteredIssues iss sel) = {i \<in> set iss. spec_matches sel i} \<and>
   (selectedType sel \<noteq> [] \<and> issuetype (issue_fields i) = None \<longrightarrow> i \<notin> set (filteredIssues iss sel)) \<and>
   (selectedAssignee sel \<noteq> [] \<and> assignee (issue_fields i) = None \<longrightarrow> i \<notin> set (filteredIssues iss sel)) \<and>
   (selectedStatus sel \<noteq> [] \<and> status (issue_fields i) = None \<longrightarrow> i \<notin> set (filteredIssues iss sel)) \<and>
   (selectedPriority sel \<noteq> [] \<and> priority (issue_fields i) = None \<longrightarrow> i \<notin> set (filteredIssues iss sel)) \<and>
   filteredIssues iss no_filters = iss"
proof -
  have eq: "filteredIssues iss sel = filter (spec_matches sel) iss"
    by (simp add: filteredIssues_def filter_callback_spec cong: filter_cong)
  have all: "filteredIssues iss no_filters = iss"
    by (simp add: filteredIssues_def filter_callback_spec spec_matches_def field_matches_def
        no_filters_def)
  have t: "selectedType sel \<noteq> [] \<and> issuetype (issue_fields i) = None \<longrightarrow> \<not> spec_matches sel i"
    by (simp add: spec_matches_def field_matches_def issuetype_name_def)
  have a: "selectedAssignee sel \<noteq> [] \<and> assignee (issue_fields i) = None \<longrightarrow> \<not> spec_matches sel i"
    by (simp add: spec_matches_def field_matches_def assignee_displayName_def)
  have s: "selectedStatus sel \<noteq> [] \<and> status (issue_fields i) = None \<longrightarrow> \<not> spec_matches sel i"
    by (simp add: spec_matches_def field_matches_def status_name_def)
  have p: "selectedPriority sel \<noteq> [] \<and> priority (issue_fields i) = None \<longrightarrow> \<not> spec_matches sel i"
    by (simp add: spec_matches_def field_matches_def priority_name_def)
  from eq all t a s p show ?thesis
    by auto
qed

theorem filteredIssues_witness:
  "filteredIssues
     [issue_with_status ''A-1'' ''In Progress'', issue_with_status ''A-2'' ''Done'',
      issue_bare ''A-3'', issue_with_status ''A-4'' ''In Progress'']
     (no_filters\<lparr>selectedStatus := ''In Progress''\<rparr>) =
   [issue_with_status ''A-1'' ''In Progress'', issue_with_status ''A-4'' ''In Progress''] \<and>
   issue_bare ''A-3'' \<notin> set (filteredIssues
     [issue_with_status ''A-1'' ''In Progress'', issue_with_status ''A-2'' ''Done'',
      issue_bare ''A-3'', issue_with_status ''A-4'' ''In Progress'']
     (no_filters\<lparr>selectedStatus := ''In Progress''\<rparr>))"
  using filteredIssues_spec [of
      "[issue_with_status ''A-1'' ''In Progress'', issue_with_status ''A-2'' ''Done'',
        issue_bare ''A-3'', issue_with_status ''A-4'' ''In Progress'']"
      "no_filters\<lparr>selectedStatus := ''In Progress''\<rparr>" "issue_bare ''A-3''"]
  by (simp add: spec_matches_def field_matches_def no_filters_def issue_with_status_def
      issue_bare_def bare_fields_def status_name_def issuetype_name_def
      assignee_displayName_def priority_name_def)

section \<open>Derived filter vocabularies\<close>

text \<open>
  \<^verbatim>\<open>Array.from(new Set(issues.map(f).filter(Boolean))).sort()\<close>, four times.
  \<^verbatim>\<open>filter(Boolean)\<close> drops \<^verbatim>\<open>undefined\<close> and the empty string. A \<^verbatim>\<open>Set\<close>
  keeps its elements in insertion order, each once; \<^verbatim>\<open>Array.from\<close> lists them in
  that order. \<^verbatim>\<open>sort()\<close> without a comparator orders strings by their code units,
  which is the order \<open>\<le>\<close> on \<open>string\<close>.
\<close>

fun filter_Boolean :: "string option list \<Rightarrow> string list" where
  "filter_Boolean [] = []"
| "filter_Boolean (v # vs) =
     (case v of
        None \<Rightarrow> filter_Boolean vs
      | Some s \<Rightarrow> if truthy s then s # filter_Boolean vs else filter_Boolean vs)"

definition Set_add :: "'a list \<Rightarrow> 'a \<Rightarrow> 'a list" where
  "Set_add st x = (if x \<in> set st then st else st @ [x])"

definition new_Set :: "'a list \<Rightarrow> 'a list" where
  "new_Set xs = foldl Set_add [] xs"

definition types :: "JiraIssue list \<Rightarrow> string list" where
  "types iss = sort (new_Set (filter_Boolean (map issuetype_name iss)))"

definition assignees :: "JiraIssue list \<Rightarrow> string list" where
  "assignees iss = sort (new_Set (filter_Boolean (map assignee_displayName iss)))"

definition statuses :: "JiraIssue list \<Rightarrow> string list" where
  "statuses iss = sort (new_Set (filter_Boolean (map status_name iss)))"

definition priorities :: "JiraIssue list \<Rightarrow> string list" where
  "priorities iss = sort (new_Set (filter_Boolean (map priority_name iss)))"

text \<open>The values a field takes across a list of issues, the empty string left out.\<close>

definition field_values :: "(JiraIssue \<Rightarrow> string option) \<Rightarrow> JiraIssue list \<Rightarrow> string set" where
  "field_values f iss = {n. n \<noteq> [] \<and> (\<exists>i \<in> set iss. f i = Some n)}"

lemma set_filter_Boolean: "set (filter_Boolean vs) = {s. s \<noteq> [] \<and> Some s \<in> set vs}"
  by (induction vs) (auto simp: truthy_def split: option.splits)

lemma set_foldl_Set_add: "set (foldl Set_add acc xs) = set acc \<union> set xs"
  by (induction xs arbitrary: acc) (auto simp: Set_add_def)

lemma distinct_foldl_Set_add: "distinct acc \<Longrightarrow> distinct (foldl Set_add acc xs)"
  by (induction xs arbitrary: acc) (auto simp: Set_add_def)

lemma vocabulary_shape:
  "sorted (sort (new_Set (filter_Boolean (map f iss)))) \<and>
   distinct (sort (new_Set (filter_Boolean (map f iss)))) \<and>
   set (sort (new_Set (filter_Boolean (map f iss)))) = field_values f iss"
proof -
  have "set (new_Set (filter_Boolean (map f iss))) = field_values f iss"
    by (force simp: new_Set_def set_foldl_Set_add set_filter_Boolean field_values_def image_iff)
  moreover have "distinct (new_Set (filter_Boolean (map f iss)))"
    by (simp add: new_Set_def distinct_foldl_Set_add)
  ultimately show ?thesis
    by simp
qed

text \<open>The order on strings: by character code, position by position.\<close>

lemma string_order_lexicographic:
  "([] \<le> (ys :: string)) \<and> \<not> (x # xs \<le> []) \<and>
   (x # xs \<le> y # ys \<longleftrightarrow> (of_char x :: nat) < of_char y \<or> x = y \<and> xs \<le> ys)"
  by (simp add: less_char_def)

text \<open>
  Claim C7. For every loaded issue list and each of the four dimensions, the derived
  vocabulary is sorted, has no duplicates, and holds exactly the non-empty values of
  the field across the loaded issues (an issue without the field contributes nothing);
  the sorted duplicate-free list of a finite set is unique, so this determines the
  vocabulary.
\<close>

theorem vocabularies_sorted_distinct:
  "sorted (types iss) \<and> distinct (types iss) \<and> set (types iss) = field_values issuetype_name iss \<and>
   sorted (assignees iss) \<and> distinct (assignees iss) \<and>
     set (assignees iss) = field_values assignee_displayName iss \<and>
   sorted (statuses iss) \<and> distinct (statuses iss) \<and> set (statuses iss) = field_values status_name iss \<and>
   sorted (priorities iss) \<and> distinct (priorities iss) \<and>
     set (priorities iss) = field_values priority_name iss \<and>
   types iss = sorted_list_of_set (field_values issuetype_name iss) \<and>
   assignees iss = sorted_list_of_set (field_values assignee_displayName iss) \<and>
   statuses iss = sorted_list_of_set (field_values status_name iss) \<and>
   priorities iss = sorted_list_of_set (field_values priority_name iss)"
proof -
  have u: "xs = sorted_list_of_set A" if "sorted xs \<and> distinct xs \<and> set xs = A" for xs :: "string list" and A
    using that sorted_list_of_set.idem_if_sorted_distinct [of xs] by auto
  note t = vocabulary_shape [of issuetype_name iss, folded types_def]
  note a = vocabulary_shape [of assignee_displayName iss, folded assignees_def]
  note s = vocabulary_shape [of status_name iss, folded statuses_def]
  note p = vocabulary_shape [of priority_name iss, folded priorities_def]
  from t a s p u [OF t] u [OF a] u [OF s] u [OF p] show ?thesis
    by blast
qed

theorem vocabularies_witness:
  "types [issue_with_type ''A-1'' ''Story'', issue_with_type ''A-2'' ''Bug'', issue_bare ''A-3'',
          issue_with_type ''A-4'' ''Story''] = [''Bug'', ''Story''] \<and>
   sorted [''Bug'', ''Story'']"
proof -
  have "types [issue_with_type ''A-1'' ''Story'', issue_with_type ''A-2'' ''Bug'', issue_bare ''A-3'',
          issue_with_type ''A-4'' ''Story''] = [''Bug'', ''Story'']"
    by (simp add: types_def issue_with_type_def issue_bare_def bare_fields_def issuetype_name_def
        truthy_def new_Set_def Set_add_def less_eq_char_def less_char_def)
  with vocabularies_sorted_distinct [of "[issue_with_type ''A-1'' ''Story'',
      issue_with_type ''A-2'' ''Bug'', issue_bare ''A-3'', issue_with_type ''A-4'' ''Story'']"]
  show ?thesis
    by simp
qed

section \<open>Status chips\<close>

text \<open>
  \<^verbatim>\<open>String.prototype.includes\<close>: the argument occurs in the string as a contiguous
  run of characters (the name \<open>str_includes\<close>: \<open>includes\<close> is reserved).
\<close>

fun str_includes :: "string \<Rightarrow> string \<Rightarrow> bool" where
  "str_includes [] k = (k = [])"
| "str_includes (c # cs) k = (prefix k (c # cs) \<or> str_includes cs k)"

text \<open>
  The return type of \<^verbatim>\<open>getStatusColor\<close>:
  \<^verbatim>\<open>{ color: 'primary' | 'secondary' | 'default'; style?: React.CSSProperties }\<close>.
  Of the style only \<^verbatim>\<open>backgroundColor\<close> and \<^verbatim>\<open>color\<close> are ever set; the latter is
  the field \<open>textColor\<close> here, the name \<open>color\<close> being the chip's.
\<close>

datatype ChipColor = Primary | Secondary | Default

record CSSProperties =
  backgroundColor :: string
  textColor :: string

record ColorConfig =
  color :: ChipColor
  style :: "CSSProperties option"

text \<open>
  \<^verbatim>\<open>getStatusColor\<close>. \<^verbatim>\<open>String.prototype.toLowerCase\<close> is the parameter
  \<open>toLowerCase\<close>; \<open>toLowerCase_ascii\<close> below is that function on strings of ASCII
  characters.
\<close>

definition getStatusColor :: "(string \<Rightarrow> string) \<Rightarrow> string \<Rightarrow> ColorConfig" where
  "getStatusColor toLowerCase st =
     (let statusLower = toLowerCase st in
      if str_includes statusLower ''done'' \<or> str_includes statusLower ''closed'' \<or>
         str_includes statusLower ''resolved''
      then \<lparr>color = Primary, style = None\<rparr>
      else if str_includes statusLower ''progress''
      then \<lparr>color = Primary, style = Some \<lparr>backgroundColor = ''#1976d2'', textColor = ''white''\<rparr>\<rparr>
      else if str_includes statusLower ''review''
      then \<lparr>color = Secondary, style = Some \<lparr>backgroundColor = ''#9c27b0'', textColor = ''white''\<rparr>\<rparr>
      else if str_includes statusLower ''to do'' \<or> str_includes statusLower ''new'' \<or>
         str_includes statusLower ''open''
      then \<lparr>color = Default, style = Some \<lparr>backgroundColor = ''#ff9800'', textColor = ''white''\<rparr>\<rparr>
      else if str_includes statusLower ''block'' \<or> str_includes statusLower ''hold'' \<or>
         str_includes statusLower ''wait''
      then \<lparr>color = Default, style = Some \<lparr>backgroundColor = ''#f44336'', textColor = ''white''\<rparr>\<rparr>
      else if str_includes statusLower ''test'' \<or> str_includes statusLower ''qa''
      then \<lparr>color = Default, style = Some \<lparr>backgroundColor = ''#009688'', textColor = ''white''\<rparr>\<rparr>
      else if str_includes statusLower ''release'' \<and> str_includes statusLower ''pending''
      then \<lparr>color = Primary, style = Some \<lparr>backgroundColor = ''#4caf50'', textColor = ''white''\<rparr>\<rparr>
      else \<lparr>color = Default, style = None\<rparr>)"

definition lower_char :: "char \<Rightarrow> char" where
  "lower_char c =
     (case map_of (zip ''ABCDEFGHIJKLMNOPQRSTUVWXYZ'' ''abcdefghijklmnopqrstuvwxyz'') c of
        None \<Rightarrow> c
      | Some l \<Rightarrow> l)"

definition toLowerCase_ascii :: "string \<Rightarrow> string" where
  "toLowerCase_ascii s = map lower_char s"

text \<open>
  The specification's reading: an ordered table of keyword groups. A group is a list
  of alternatives, an alternative a list of keywords that must all occur; the first
  group with a satisfied alternative gives the result, and a default is returned when
  there is none.
\<close>

type_synonym keyword_group = "string list list \<times> ColorConfig"

definition group_matches :: "string \<Rightarrow> keyword_group \<Rightarrow> bool" where
  "group_matches s g = list_ex (\<lambda>alt. list_all (str_includes s) alt) (fst g)"

definition first_matching_group :: "keyword_group list \<Rightarrow> ColorConfig \<Rightarrow> string \<Rightarrow> ColorConfig" where
  "first_matching_group table dflt s =
     (case find (group_matches s) table of None \<Rightarrow> dflt | Some g \<Rightarrow> snd g)"

definition chip :: "ChipColor \<Rightarrow> string \<Rightarrow> ColorConfig" where
  "chip c bg = \<lparr>color = c, style = Some \<lparr>backgroundColor = bg, textColor = ''white''\<rparr>\<rparr>"

definition neutral_chip :: ColorConfig where
  "neutral_chip = \<lparr>color = Default, style = None\<rparr>"

text \<open>The groups with the keywords as the specification lists them.\<close>

definition listed_keyword_groups :: "keyword_group list" where
  "listed_keyword_groups =
     [([[''done''], [''closed''], [''resolved'']], \<lparr>color = Primary, style = None\<rparr>),
      ([[''in-progress'']], chip Primary ''#1976d2''),
      ([[''review'']], chip Secondary ''#9c27b0''),
      ([[''to-do''], [''new''], [''open'']], chip Default ''#ff9800''),
      ([[''blocked''], [''hold''], [''wait'']], chip Default ''#f44336''),
      ([[''test''], [''qa'']], chip Default ''#009688''),
      ([[''release'', ''pending'']], chip Primary ''#4caf50'')]"

text \<open>The groups with the keywords the code tests.\<close>

definition tested_keyword_groups :: "keyword_group list" where
  "tested_keyword_groups =
     [([[''done''], [''closed''], [''resolved'']], \<lparr>color = Primary, style = None\<rparr>),
      ([[''progress'']], chip Primary ''#1976d2''),
      ([[''review'']], chip Secondary ''#9c27b0''),
      ([[''to do''], [''new''], [''open'']], chip Default ''#ff9800''),
      ([[''block''], [''hold''], [''wait'']], chip Default ''#f44336''),
      ([[''test''], [''qa'']], chip Default ''#009688''),
      ([[''release'', ''pending'']], chip Primary ''#4caf50'')]"

lemma str_includes_sublist: "str_includes s k \<longleftrightarrow> sublist k s"
  by (induction s) (auto simp: sublist_Cons_right)

lemma getStatusColor_table:
  "getStatusColor toLowerCase st =
     first_matching_group tested_keyword_groups neutral_chip (toLowerCase st)"
  by (simp add: getStatusColor_def first_matching_group_def tested_keyword_groups_def
      group_matches_def chip_def neutral_chip_def Let_def)

lemma tested_groups_distinct:
  "distinct (map snd tested_keyword_groups) \<and> neutral_chip \<notin> set (map snd tested_keyword_groups)"
  by (simp add: tested_keyword_groups_def chip_def neutral_chip_def)

lemma toLowerCase_ascii_In_Progress: "toLowerCase_ascii ''In Progress'' = ''in progress''"
  by (simp add: toLowerCase_ascii_def lower_char_def)

text \<open>
  Claim C9, as amended. For every status string, \<^verbatim>\<open>getStatusColor\<close> lower-cases the
  status and tests substring membership against the ordered keyword groups
  done/closed/resolved; progress; review; "to do"/new/open; block/hold/wait; test/qa;
  release together with pending. It returns the chip configuration of the first group
  that matches; the seven configurations are pairwise distinct, and when no group
  matches the result is a neutral default that differs from all seven.
\<close>

theorem getStatusColor_first_match:
  "getStatusColor toLowerCase st =
     first_matching_group tested_keyword_groups neutral_chip (toLowerCase st) \<and>
   distinct (map snd tested_keyword_groups) \<and>
   neutral_chip \<notin> set (map snd tested_keyword_groups) \<and>
   (str_includes s k \<longleftrightarrow> (\<exists>ps ss. s = ps @ k @ ss))"
  using getStatusColor_table [of toLowerCase st] tested_groups_distinct
    str_includes_sublist [of s k]
  by (simp only: sublist_def) blast

theorem getStatusColor_witness:
  "getStatusColor toLowerCase_ascii ''In Progress'' = chip Primary ''#1976d2'' \<and>
   getStatusColor toLowerCase_ascii ''In Progress'' \<noteq> neutral_chip"
  using getStatusColor_first_match [of toLowerCase_ascii "''In Progress''" "[]" "[]"]
  by (simp add: toLowerCase_ascii_In_Progress first_matching_group_def tested_keyword_groups_def
      group_matches_def chip_def neutral_chip_def)

text \<open>
  With the keywords as the specification lists them (\<open>in-progress\<close>, \<open>to-do\<close>,
  \<open>blocked\<close>) the status \<open>In Progress\<close> matches no group, while the code colours it
  with the second group's blue: the code tests \<open>progress\<close>, \<open>to do\<close> and \<open>block\<close>.
\<close>

theorem getStatusColor_listed_keywords_counterexample:
  "getStatusColor toLowerCase_ascii ''In Progress'' \<noteq>
     first_matching_group listed_keyword_groups neutral_chip (toLowerCase_ascii ''In Progress'')"
  by (simp add: toLowerCase_ascii_In_Progress getStatusColor_def first_matching_group_def
      listed_keyword_groups_def group_matches_def chip_def neutral_chip_def)

section \<open>The proxy route\<close>

subsection \<open>encodeURIComponent\<close>

text \<open>
  \<^verbatim>\<open>encodeURIComponent\<close> keeps the letters, the digits and \<^verbatim>\<open>- _ . ! ~ * ' ( )\<close>
  and writes every other byte of the UTF-8 form of the string as \<^verbatim>\<open>%XX\<close> with two
  upper-case hexadecimal digits. Strings are their UTF-8 bytes here, so the function
  is bytewise. (It throws on a lone surrogate, which no UTF-8 byte string denotes and
  which a decoded path parameter never holds.)
\<close>

definition unreserved :: "char \<Rightarrow> bool" where
  "unreserved c =
     (c \<in> set ''ABCDEFGHIJKLMNOPQRSTUVWXYZabcdefghijklmnopqrstuvwxyz0123456789-_.!~*()''
      \<or> c = CHR 0x27)"

definition hex_char :: "nat \<Rightarrow> char" where
  "hex_char d =
     (if d < 10 then digit_char d else if d = 10 then CHR ''A'' else if d = 11 then CHR ''B''
      else if d = 12 then CHR ''C'' else if d = 13 then CHR ''D'' else if d = 14 then CHR ''E''
      else CHR ''F'')"

definition percent_byte :: "char \<Rightarrow> string" where
  "percent_byte c = [CHR ''%'', hex_char (of_char c div 16), hex_char (of_char c mod 16)]"

fun encodeURIComponent :: "string \<Rightarrow> string" where
  "encodeURIComponent [] = []"
| "encodeURIComponent (c # cs) =
     (if unreserved c then c # encodeURIComponent cs else percent_byte c @ encodeURIComponent cs)"

text \<open>
  Reading a percent-encoded query component back, as the receiving server does: every
  \<^verbatim>\<open>%XX\<close> becomes the byte with that hexadecimal code.
\<close>

definition hex_val :: "char \<Rightarrow> nat" where
  "hex_val h =
     (case map_of (zip ''0123456789ABCDEF'' [0, 1, 2, 3, 4, 5, 6, 7, 8, 9, 10, 11, 12, 13, 14, 15]) h of
        None \<Rightarrow> 0
      | Some d \<Rightarrow> d)"

fun percent_decode :: "string \<Rightarrow> string" where
  "percent_decode [] = []"
| "percent_decode (c # cs) =
     (if c = CHR ''%'' then
        (case cs of
           h # l # rest \<Rightarrow> char_of (16 * hex_val h + hex_val l) # percent_decode rest
         | _ \<Rightarrow> c # percent_decode cs)
      else c # percent_decode cs)"

lemma hex_val_hex_char: "d < 16 \<Longrightarrow> hex_val (hex_char d) = d"
proof -
  have "\<forall>d \<in> set [0..<16]. hex_val (hex_char d) = d"
    by (simp add: upt_rec hex_val_def hex_char_def digit_char_def)
  then show "d < 16 \<Longrightarrow> hex_val (hex_char d) = d"
    by simp
qed

lemma unreserved_not_percent: "unreserved c \<Longrightarrow> c \<noteq> CHR ''%''"
  by (auto simp: unreserved_def)

lemma percent_decode_byte:
  "percent_decode (percent_byte c @ rest) = c # percent_decode rest"
proof -
  have "(of_char c :: nat) < 256"
    by (rule nat_of_char_less_256)
  then have "(of_char c :: nat) div 16 < 16" "(of_char c :: nat) mod 16 < 16"
    by (simp_all add: less_mult_imp_div_less)
  then show ?thesis
    by (simp add: percent_byte_def hex_val_hex_char)
qed

lemma percent_decode_encodeURIComponent: "percent_decode (encodeURIComponent s) = s"
proof (induction s)
  case Nil
  show ?case by simp
next
  case (Cons c s)
  show ?case
  proof (cases "unreserved c")
    case True
    with Cons unreserved_not_percent [of c] show ?thesis by simp
  next
    case False
    with Cons show ?thesis by (simp add: percent_decode_byte del: percent_decode.simps)
  qed
qed

text \<open>The characters an encoded component can hold: none of them delimits a query.\<close>

definition hex_digit :: "char \<Rightarrow> bool" where
  "hex_digit c = (c \<in> set ''0123456789ABCDEF'')"

lemma hex_digit_hex_char: "hex_digit (hex_char d)"
  by (simp add: hex_digit_def hex_char_def digit_char_def)

lemma encodeURIComponent_chars:
  "c \<in> set (encodeURIComponent s) \<Longrightarrow> unreserved c \<or> c = CHR ''%'' \<or> hex_digit c"
proof (induction s)
  case Nil
  then show ?case by simp
next
  case (Cons a s)
  show ?case
  proof (cases "unreserved a")
    case True
    with Cons show ?thesis by auto
  next
    case False
    with Cons.prems have "c \<in> set (percent_byte a) \<or> c \<in> set (encodeURIComponent s)"
      by simp
    then show ?thesis
    proof
      assume "c \<in> set (percent_byte a)"
      then have "c = CHR ''%'' \<or> c = hex_char (of_char a div 16) \<or> c = hex_char (of_char a mod 16)"
        by (simp add: percent_byte_def)
      then show ?thesis
        using hex_digit_hex_char by blast
    next
      assume "c \<in> set (encodeURIComponent s)"
      then show ?thesis by (rule Cons.IH)
    qed
  qed
qed

lemma encodeURIComponent_no_delimiter:
  "CHR ''&'' \<notin> set (encodeURIComponent s) \<and> CHR ''='' \<notin> set (encodeURIComponent s) \<and>
   CHR '' '' \<notin> set (encodeURIComponent s) \<and> CHR ''#'' \<notin> set (encodeURIComponent s)"
proof -
  have "\<not> (unreserved c \<or> c = CHR ''%'' \<or> hex_digit c)"
    if "c \<in> {CHR ''&'', CHR ''='', CHR '' '', CHR ''#''}" for c
    using that by (auto simp: unreserved_def hex_digit_def)
  with encodeURIComponent_chars [of _ s] show ?thesis
    by blast
qed

subsection \<open>The route\<close>

text \<open>
  A thrown value is an \<^verbatim>\<open>Error\<close> with its message or something else
  (\<^verbatim>\<open>error instanceof Error ? error.message : 'Unknown error'\<close>).
  \<^verbatim>\<open>config.getString\<close> is a function from keys to a string or a thrown value.
\<close>

datatype thrown = JsError string | NonError

type_synonym config = "string \<Rightarrow> thrown + string"

record Request =
  url :: string
  headers :: "(string \<times> string) list"

text \<open>
  What \<^verbatim>\<open>fetch\<close> resolves to: the status, and what \<^verbatim>\<open>response.text()\<close> and
  \<^verbatim>\<open>response.json()\<close> would yield (either can reject). The parsed body is kept
  opaque but for the value \<^verbatim>\<open>null\<close>, the one JSON value on which a property read
  throws. \<^verbatim>\<open>response.ok\<close> is a status in the range 200 to 299.
\<close>

datatype 'j parsed = JsonNull | JsonValue 'j

record 'j Response =
  resp_status :: nat
  resp_text :: "thrown + string"
  resp_json :: "thrown + 'j parsed"

definition ok :: "'j Response \<Rightarrow> bool" where
  "ok r = (200 \<le> resp_status r \<and> resp_status r \<le> 299)"

type_synonym 'j upstream = "Request \<Rightarrow> thrown + 'j Response"

text \<open>
  What the route sends: a status code and a JSON body of one of three shapes, the
  relayed upstream value, \<^verbatim>\<open>{error, details}\<close> (\<open>ApiError error details\<close>) or
  \<^verbatim>\<open>{error, message}\<close> (\<open>InternalError error message\<close>).
\<close>

datatype 'j ReplyBody =
  Relay 'j
  | ApiError string string
  | InternalError string string

record 'j Reply =
  code :: nat
  body :: "'j ReplyBody"

text \<open>The \<^verbatim>\<open>catch\<close> block.\<close>

definition catch_reply :: "thrown \<Rightarrow> 'j Reply" where
  "catch_reply e =
     \<lparr>code = 500,
      body = InternalError ''Internal server error''
        (case e of JsError m \<Rightarrow> m | NonError \<Rightarrow> ''Unknown error'')\<rparr>"

text \<open>
  The handler of \<^verbatim>\<open>GET /issues/:projectKey\<close>. It returns the upstream requests it
  made, in order, and its reply. The log lines are left out but for the one that reads
  \<^verbatim>\<open>data.issues\<close>, which throws a \<^verbatim>\<open>TypeError\<close> when \<^verbatim>\<open>data\<close> is \<^verbatim>\<open>null\<close>.
  A reply without \<^verbatim>\<open>res.status(...)\<close> has status 200.
\<close>

definition jqlQuery :: "string \<Rightarrow> string" where
  "jqlQuery projectKey = ''project='' @ projectKey @ '' AND status NOT IN (Closed, Resolved, Done)''"

definition maxResults :: nat where
  "maxResults = 1000"

definition search_request :: "string \<Rightarrow> string \<Rightarrow> string \<Rightarrow> Request" where
  "search_request jiraUrl jiraToken projectKey =
     \<lparr>url = jiraUrl @ ''/rest/api/2/search?jql='' @ encodeURIComponent (jqlQuery projectKey) @
        ''&maxResults='' @ string_of_nat maxResults,
      headers = [(''Authorization'', ''Bearer '' @ jiraToken), (''Accept'', ''application/json'')]\<rparr>"

definition issues_route :: "config \<Rightarrow> 'j upstream \<Rightarrow> string \<Rightarrow> Request list \<times> 'j Reply" where
  "issues_route cfg upstream projectKey =
     (case cfg ''integrations.jira.apiToken'' of
        Inl e \<Rightarrow> ([], catch_reply e)
      | Inr jiraToken \<Rightarrow>
     (case cfg ''integrations.jira.baseUrl'' of
        Inl e \<Rightarrow> ([], catch_reply e)
      | Inr jiraUrl \<Rightarrow>
     (let req = search_request jiraUrl jiraToken projectKey in
      case upstream req of
        Inl e \<Rightarrow> ([req], catch_reply e)
      | Inr response \<Rightarrow>
          if \<not> ok response then
            (case resp_text response of
               Inl e \<Rightarrow> ([req], catch_reply e)
             | Inr errorText \<Rightarrow>
                 ([req],
                  \<lparr>code = resp_status response,
                   body = ApiError (''Jira API error: '' @ string_of_nat (resp_status response))
                     errorText\<rparr>))
          else
            (case resp_json response of
               Inl e \<Rightarrow> ([req], catch_reply e)
             | Inr JsonNull \<Rightarrow>
                 ([req], catch_reply (JsError ''Cannot read properties of null (reading 'issues')''))
             | Inr (JsonValue data) \<Rightarrow> ([req], \<lparr>code = 200, body = Relay data\<rparr>)))))"

text \<open>A configuration holding both values, and an upstream with one fixed outcome.\<close>

definition example_config :: config where
  "example_config k =
     (if k = ''integrations.jira.apiToken'' then Inr ''s3cret''
      else if k = ''integrations.jira.baseUrl'' then Inr ''https://jira.example.com''
      else Inl (JsError ''Missing required config value''))"

definition upstream_always :: "thrown + 'j Response \<Rightarrow> 'j upstream" where
  "upstream_always outcome = (\<lambda>req. outcome)"

lemma string_of_nat_1000: "string_of_nat 1000 = ''1000''"
  by (simp add: string_of_nat.simps digit_char_def)

lemma string_of_nat_401: "string_of_nat 401 = ''401''"
  by (simp add: string_of_nat.simps digit_char_def)

lemma encoded_query_ABC:
  "encodeURIComponent (jqlQuery ''ABC'') =
     ''project%3DABC%20AND%20status%20NOT%20IN%20(Closed%2C%20Resolved%2C%20Done)''"
  by (simp add: jqlQuery_def unreserved_def percent_byte_def hex_char_def digit_char_def)

lemma route_requests:
  assumes "cfg ''integrations.jira.apiToken'' = Inr token"
    and "cfg ''integrations.jira.baseUrl'' = Inr baseUrl"
  shows "fst (issues_route cfg upstream projectKey) = [search_request baseUrl token projectKey]"
  using assms
  by (simp add: issues_route_def Let_def split: sum.split parsed.split)

text \<open>
  Claim C4. For every project key, with the base URL and the token read from the
  configuration, the route makes exactly one upstream request: its URL is the base URL
  followed by \<^verbatim>\<open>/rest/api/2/search?jql=\<close>, the URL-encoded query
  \<^verbatim>\<open>project=KEY AND status NOT IN (Closed, Resolved, Done)\<close> and
  \<^verbatim>\<open>&maxResults=1000\<close>, and its headers are \<^verbatim>\<open>Authorization: Bearer TOKEN\<close> and
  \<^verbatim>\<open>Accept: application/json\<close>. The encoding is faithful: the encoded query holds
  no \<^verbatim>\<open>&\<close>, \<^verbatim>\<open>=\<close>, \<^verbatim>\<open>#\<close> or space, and decodes to the query.
\<close>

theorem issues_route_one_request:
  assumes "cfg ''integrations.jira.apiToken'' = Inr token"
    and "cfg ''integrations.jira.baseUrl'' = Inr baseUrl"
  shows "fst (issues_route cfg upstream projectKey) =
     [\<lparr>url = baseUrl @ ''/rest/api/2/search?jql='' @
         encodeURIComponent (''project='' @ projectKey @ '' AND status NOT IN (Closed, Resolved, Done)'') @
         ''&maxResults=1000'',
       headers = [(''Authorization'', ''Bearer '' @ token), (''Accept'', ''application/json'')]\<rparr>] \<and>
     percent_decode
       (encodeURIComponent (''project='' @ projectKey @ '' AND status NOT IN (Closed, Resolved, Done)'')) =
       ''project='' @ projectKey @ '' AND status NOT IN (Closed, Resolved, Done)'' \<and>
     set ''&=# '' \<inter>
       set (encodeURIComponent (''project='' @ projectKey @ '' AND status NOT IN (Closed, Resolved, Done)''))
       = {}"
proof -
  have "fst (issues_route cfg upstream projectKey) = [search_request baseUrl token projectKey]"
    using assms by (rule route_requests)
  moreover have "set ''&=# '' \<inter> set (encodeURIComponent q) = {}" for q
    using encodeURIComponent_no_delimiter [of q] by simp
  ultimately show ?thesis
    by (simp add: search_request_def jqlQuery_def maxResults_def string_of_nat_1000
        percent_decode_encodeURIComponent del: percent_decode.simps encodeURIComponent.simps)
qed

theorem issues_route_one_request_witness:
  "fst (issues_route example_config
        (upstream_always (Inl (JsError ''fetch failed'') :: thrown + nat Response)) ''ABC'') =
     [\<lparr>url = ''https://jira.example.com/rest/api/2/search?jql=project%3DABC%20AND%20status%20NOT%20IN%20(Closed%2C%20Resolved%2C%20Done)&maxResults=1000'',
       headers = [(''Authorization'', ''Bearer s3cret''), (''Accept'', ''application/json'')]\<rparr>]"
proof -
  have t: "example_config ''integrations.jira.apiToken'' = Inr ''s3cret''"
    by (simp add: example_config_def)
  have u: "example_config ''integrations.jira.baseUrl'' = Inr ''https://jira.example.com''"
    by (simp add: example_config_def)
  have "''project='' @ ''ABC'' @ '' AND status NOT IN (Closed, Resolved, Done)'' = jqlQuery ''ABC''"
    by (simp add: jqlQuery_def)
  with issues_route_one_request [OF t u, of
      "upstream_always (Inl (JsError ''fetch failed'') :: thrown + nat Response)" "''ABC''"]
  show ?thesis
    by (simp only: encoded_query_ABC) simp
qed

text \<open>
  The three ways a request to the route can go. The upstream answers with a success
  status and a JSON body that can be relayed; it answers with another status and
  a readable body; or something fails: a configuration read, the fetch itself, the
  reading of the body, or the handler on the body \<^verbatim>\<open>null\<close>.
\<close>

definition upstream_success :: "config \<Rightarrow> 'j upstream \<Rightarrow> string \<Rightarrow> 'j \<Rightarrow> bool" where
  "upstream_success cfg upstream projectKey data =
     (\<exists>token baseUrl response.
        cfg ''integrations.jira.apiToken'' = Inr token \<and>
        cfg ''integrations.jira.baseUrl'' = Inr baseUrl \<and>
        upstream (search_request baseUrl token projectKey) = Inr response \<and>
        ok response \<and> resp_json response = Inr (JsonValue data))"

definition upstream_refusal :: "config \<Rightarrow> 'j upstream \<Rightarrow> string \<Rightarrow> nat \<Rightarrow> string \<Rightarrow> bool" where
  "upstream_refusal cfg upstream projectKey st errorText =
     (\<exists>token baseUrl response.
        cfg ''integrations.jira.apiToken'' = Inr token \<and>
        cfg ''integrations.jira.baseUrl'' = Inr baseUrl \<and>
        upstream (search_request baseUrl token projectKey) = Inr response \<and>
        \<not> ok response \<and> resp_status response = st \<and> resp_text response = Inr errorText)"

lemma route_success:
  "upstream_success cfg upstream projectKey data \<Longrightarrow>
   snd (issues_route cfg upstream projectKey) = \<lparr>code = 200, body = Relay data\<rparr>"
  by (auto simp: upstream_success_def issues_route_def Let_def)

lemma route_refusal:
  "upstream_refusal cfg upstream projectKey st errorText \<Longrightarrow>
   snd (issues_route cfg upstream projectKey) =
     \<lparr>code = st, body = ApiError (''Jira API error: '' @ string_of_nat st) errorText\<rparr>"
  by (auto simp: upstream_refusal_def issues_route_def Let_def)

lemma route_other:
  assumes "\<nexists>data. upstream_success cfg upstream projectKey data"
    and "\<nexists>st errorText. upstream_refusal cfg upstream projectKey st errorText"
  shows "\<exists>message. snd (issues_route cfg upstream projectKey) =
     \<lparr>code = 500, body = InternalError ''Internal server error'' message\<rparr>"
proof (cases "cfg ''integrations.jira.apiToken''")
  case (Inl e)
  then show ?thesis by (simp add: issues_route_def catch_reply_def)
next
  case token: (Inr token)
  show ?thesis
  proof (cases "cfg ''integrations.jira.baseUrl''")
    case (Inl e)
    with token show ?thesis by (simp add: issues_route_def catch_reply_def)
  next
    case baseUrl: (Inr baseUrl)
    show ?thesis
    proof (cases "upstream (search_request baseUrl token projectKey)")
      case (Inl e)
      with token baseUrl show ?thesis by (simp add: issues_route_def catch_reply_def Let_def)
    next
      case response: (Inr response)
      show ?thesis
      proof (cases "ok response")
        case True
        with assms(1) token baseUrl response
        have "\<nexists>data. resp_json response = Inr (JsonValue data)"
          unfolding upstream_success_def by blast
        with True token baseUrl response show ?thesis
          by (auto simp: issues_route_def catch_reply_def Let_def split: sum.split parsed.split)
      next
        case False
        with assms(2) token baseUrl response
        have "\<nexists>errorText. resp_text response = Inr errorText"
          unfolding upstream_refusal_def by blast
        with False token baseUrl response show ?thesis
          by (auto simp: issues_route_def catch_reply_def Let_def split: sum.split)
      qed
    qed
  qed
qed

text \<open>
  What the route answers, case by case. When the upstream answers with a success
  status and a JSON body other than \<^verbatim>\<open>null\<close>, the route relays the body; on an
  upstream status outside the success range (401, say) it answers with that same
  status and a body whose \<open>error\<close> field is \<^verbatim>\<open>Jira API error: \<close> followed by the
  status and whose \<open>details\<close> field is the upstream response text; in every other case
  it answers 500 with a body of an \<open>error\<close> field and a \<open>message\<close> field.
\<close>

theorem issues_route_replies:
  "(upstream_success cfg upstream projectKey data \<longrightarrow>
      snd (issues_route cfg upstream projectKey) = \<lparr>code = 200, body = Relay data\<rparr>) \<and>
   (upstream_refusal cfg upstream projectKey st errorText \<longrightarrow>
      snd (issues_route cfg upstream projectKey) =
        \<lparr>code = st, body = ApiError (''Jira API error: '' @ string_of_nat st) errorText\<rparr>) \<and>
   ((\<nexists>d. upstream_success cfg upstream projectKey d) \<and>
    (\<nexists>s t. upstream_refusal cfg upstream projectKey s t) \<longrightarrow>
      (\<exists>message. snd (issues_route cfg upstream projectKey) =
         \<lparr>code = 500, body = InternalError ''Internal server error'' message\<rparr>))"
  using route_success [of cfg upstream projectKey data]
    route_refusal [of cfg upstream projectKey st errorText]
    route_other [of cfg upstream projectKey]
  by blast

theorem issues_route_replies_witness:
  "snd (issues_route example_config
     (upstream_always (Inr \<lparr>resp_status = 401, resp_text = Inr ''Unauthorized'',
        resp_json = Inl (JsError ''Unexpected token'')\<rparr>) :: nat upstream) ''ABC'') =
     \<lparr>code = 401, body = ApiError ''Jira API error: 401'' ''Unauthorized''\<rparr> \<and>
   snd (issues_route example_config
     (upstream_always (Inr \<lparr>resp_status = 200, resp_text = Inr ''7'',
        resp_json = Inr (JsonValue 7)\<rparr>) :: nat upstream) ''ABC'') =
     \<lparr>code = 200, body = Relay 7\<rparr> \<and>
   (\<exists>message. snd (issues_route example_config
     (upstream_always (Inl (JsError ''fetch failed'')) :: nat upstream) ''ABC'') =
     \<lparr>code = 500, body = InternalError ''Internal server error'' message\<rparr>)"
proof -
  have r: "upstream_refusal example_config
     (upstream_always (Inr \<lparr>resp_status = 401, resp_text = Inr ''Unauthorized'',
        resp_json = Inl (JsError ''Unexpected token'')\<rparr>) :: nat upstream) ''ABC'' 401 ''Unauthorized''"
    by (simp add: upstream_refusal_def example_config_def upstream_always_def ok_def)
  have s: "upstream_success example_config
     (upstream_always (Inr \<lparr>resp_status = 200, resp_text = Inr ''7'',
        resp_json = Inr (JsonValue 7)\<rparr>) :: nat upstream) ''ABC'' 7"
    by (simp add: upstream_success_def example_config_def upstream_always_def ok_def)
  have f: "(\<nexists>d. upstream_success example_config
       (upstream_always (Inl (JsError ''fetch failed'')) :: nat upstream) ''ABC'' d) \<and>
     (\<nexists>s t. upstream_refusal example_config
       (upstream_always (Inl (JsError ''fetch failed'')) :: nat upstream) ''ABC'' s t)"
    by (simp add: upstream_success_def upstream_refusal_def upstream_always_def)
  have 1: "snd (issues_route example_config
     (upstream_always (Inr \<lparr>resp_status = 401, resp_text = Inr ''Unauthorized'',
        resp_json = Inl (JsError ''Unexpected token'')\<rparr>) :: nat upstream) ''ABC'') =
     \<lparr>code = 401, body = ApiError ''Jira API error: 401'' ''Unauthorized''\<rparr>"
    using r issues_route_replies [of example_config
      "upstream_always (Inr \<lparr>resp_status = 401, resp_text = Inr ''Unauthorized'',
        resp_json = Inl (JsError ''Unexpected token'')\<rparr>) :: nat upstream" "''ABC''" 0 401 "''Unauthorized''"]
    by (simp add: string_of_nat_401)
  have 2: "snd (issues_route example_config
     (upstream_always (Inr \<lparr>resp_status = 200, resp_text = Inr ''7'',
        resp_json = Inr (JsonValue 7)\<rparr>) :: nat upstream) ''ABC'') =
     \<lparr>code = 200, body = Relay 7\<rparr>"
    using s issues_route_replies [of example_config
      "upstream_always (Inr \<lparr>resp_status = 200, resp_text = Inr ''7'',
        resp_json = Inr (JsonValue 7)\<rparr>) :: nat upstream" "''ABC''" 7 0 "[]"]
    by simp
  have 3: "\<exists>message. snd (issues_route example_config
     (upstream_always (Inl (JsError ''fetch failed'')) :: nat upstream) ''ABC'') =
     \<lparr>code = 500, body = InternalError ''Internal server error'' message\<rparr>"
    using f issues_route_replies [of example_config
      "upstream_always (Inl (JsError ''fetch failed'')) :: nat upstream" "''ABC''" 0 0 "[]"]
    by blast
  from 1 2 3 show ?thesis
    by (intro conjI)
qed

text \<open>
  Claim C5. For every upstream response, on upstream success the route is to return
  the upstream JSON body. It does not when that body is \<^verbatim>\<open>null\<close>: before
  \<^verbatim>\<open>res.json(data)\<close> the handler logs \<^verbatim>\<open>data.issues?.length\<close>, the read of
  \<^verbatim>\<open>issues\<close> throws on \<^verbatim>\<open>null\<close>, and the \<^verbatim>\<open>catch\<close> block answers 500. The
  response below has status 200 and the JSON body \<^verbatim>\<open>null\<close>.
\<close>

theorem issues_route_null_body_500:
  "ok \<lparr>resp_status = 200, resp_text = Inr ''null'', resp_json = Inr (JsonNull :: nat parsed)\<rparr> \<and>
   issues_route example_config
     (upstream_always
        (Inr \<lparr>resp_status = 200, resp_text = Inr ''null'', resp_json = Inr JsonNull\<rparr>) :: nat upstream)
     ''ABC'' =
     ([search_request ''https://jira.example.com'' ''s3cret'' ''ABC''],
      \<lparr>code = 500,
       body = InternalError ''Internal server error''
         ''Cannot read properties of null (reading 'issues')''\<rparr>)"
  by (simp add: issues_route_def example_config_def upstream_always_def ok_def catch_reply_def
      Let_def)

section \<open>The issue card: fetching and caching\<close>

text \<open>
  The state the card's \<^verbatim>\<open>fetchIssues\<close> touches: the three \<^verbatim>\<open>useState\<close> cells
  \<^verbatim>\<open>issues\<close>, \<^verbatim>\<open>loading\<close> and \<^verbatim>\<open>lastUpdated\<close> (the record \<open>Card\<close>, the first
  as \<open>card_issues\<close>), the browser's \<^verbatim>\<open>localStorage\<close>, the URLs fetched so far and
  the lines written to the console.
\<close>

record Card =
  card_issues :: "JiraIssue list"
  loading :: bool
  lastUpdated :: "int option"

record Browser =
  card :: Card
  localStorage :: "string \<rightharpoonup> string"
  network :: "string list"
  console :: "string list"

text \<open>
  What a call of \<^verbatim>\<open>fetchIssues\<close> reads from outside: the project key annotation of
  the entity, \<^verbatim>\<open>JSON.parse\<close> at the type \<^verbatim>\<open>CachedData\<close> (\<open>None\<close> when it
  throws), \<^verbatim>\<open>JSON.stringify\<close>, the two readings of \<^verbatim>\<open>Date.now()\<close> and the outcome
  of the \<^verbatim>\<open>fetch\<close>, whose parsed body is reduced to its \<^verbatim>\<open>issues\<close> property
  (\<open>None\<close> when absent). \<^verbatim>\<open>localStorage.setItem\<close> throws a
  \<^verbatim>\<open>QuotaExceededError\<close> when the browser refuses the write; \<open>storage_accepts\<close>
  tells, for the present contents, a key and a value, whether the write goes through.
\<close>

record Env =
  projectKey :: "string option"
  JSON_parse :: "string \<Rightarrow> CachedData option"
  JSON_stringify :: "CachedData \<Rightarrow> string"
  now_at_lookup :: int
  now_at_response :: int
  response :: "thrown + (JiraIssue list option) Response"
  storage_accepts :: "(string \<rightharpoonup> string) \<Rightarrow> string \<Rightarrow> string \<Rightarrow> bool"

definition CACHE_DURATION :: int where
  "CACHE_DURATION = 3 * 60 * 60 * 1000"

definition cacheKey :: "string option \<Rightarrow> string" where
  "cacheKey pk = ''jira-issues-'' @ (case pk of None \<Rightarrow> ''undefined'' | Some k \<Rightarrow> k)"

definition issues_url :: "string \<Rightarrow> string" where
  "issues_url k = ''http://localhost:7007/api/jira-issues/issues/'' @ k"

text \<open>The \<^verbatim>\<open>catch\<close> block of the fetch: one line on the console.\<close>

definition fetch_failed :: "Browser \<Rightarrow> Browser" where
  "fetch_failed w = w\<lparr>console := console w @ [''Failed to fetch Jira issues:'']\<rparr>"

text \<open>
  The part below the comment \<^verbatim>\<open>// Fetch fresh data\<close>: \<^verbatim>\<open>setLoading(true)\<close>, the
  \<^verbatim>\<open>try\<close> with its \<^verbatim>\<open>catch\<close>, and \<^verbatim>\<open>setLoading(false)\<close> in \<^verbatim>\<open>finally\<close>.
  Inside the \<^verbatim>\<open>try\<close>, \<^verbatim>\<open>setIssues\<close> and \<^verbatim>\<open>setLastUpdated\<close> come before
  \<^verbatim>\<open>localStorage.setItem\<close>: when the write throws, the card keeps the fetched
  issues, the store keeps what it held, and the \<^verbatim>\<open>catch\<close> block logs.
\<close>

definition fetch_fresh :: "Env \<Rightarrow> string \<Rightarrow> Browser \<Rightarrow> Browser" where
  "fetch_fresh env k w =
     (let w1 = w\<lparr>card := (card w)\<lparr>loading := True\<rparr>, network := network w @ [issues_url k]\<rparr>;
          w2 =
            (case response env of
               Inl e \<Rightarrow> fetch_failed w1
             | Inr res \<Rightarrow>
                 if \<not> ok res then fetch_failed w1
                 else
                   (case resp_json res of
                      Inl e \<Rightarrow> fetch_failed w1
                    | Inr JsonNull \<Rightarrow> fetch_failed w1
                    | Inr (JsonValue data) \<Rightarrow>
                        (let fetchedIssues = (case data of None \<Rightarrow> [] | Some is \<Rightarrow> is);
                             timestamp = now_at_response env;
                             cacheData = \<lparr>issues = fetchedIssues, timestamp = timestamp\<rparr>;
                             shown = w1\<lparr>card := (card w1)\<lparr>card_issues := fetchedIssues,
                                   lastUpdated := Some timestamp\<rparr>\<rparr>
                         in if storage_accepts env (localStorage shown) (cacheKey (projectKey env))
                                 (JSON_stringify env cacheData)
                            then shown\<lparr>localStorage := (localStorage shown)
                                   (cacheKey (projectKey env) \<mapsto> JSON_stringify env cacheData)\<rparr>
                            else fetch_failed shown)))
      in w2\<lparr>card := (card w2)\<lparr>loading := False\<rparr>\<rparr>)"

definition fetchIssues :: "Env \<Rightarrow> bool \<Rightarrow> Browser \<Rightarrow> Browser" where
  "fetchIssues env forceRefresh w =
     (case projectKey env of
        None \<Rightarrow> w
      | Some k \<Rightarrow>
          if \<not> truthy k then w
          else if forceRefresh then fetch_fresh env k w
          else
            (case localStorage w (cacheKey (projectKey env)) of
               None \<Rightarrow> fetch_fresh env k w
             | Some cached \<Rightarrow>
                 if \<not> truthy cached then fetch_fresh env k w
                 else
                   (case JSON_parse env cached of
                      None \<Rightarrow>
                        fetch_fresh env k
                          (w\<lparr>console := console w @ [''Invalid cache data, fetching fresh data'']\<rparr>)
                    | Some cachedData \<Rightarrow>
                        if now_at_lookup env - timestamp cachedData < CACHE_DURATION
                        then w\<lparr>card := \<lparr>card_issues = issues cachedData, loading = False,
                               lastUpdated = Some (timestamp cachedData)\<rparr>\<rparr>
                        else fetch_fresh env k w)))"

definition handleRefresh :: "Env \<Rightarrow> Browser \<Rightarrow> Browser" where
  "handleRefresh env w = fetchIssues env True w"

text \<open>
  The specification's cache condition: a stored snapshot exists under the project's
  cache key, parses, and is younger than three hours at the time of the lookup.
\<close>

definition fresh_snapshot :: "Env \<Rightarrow> Browser \<Rightarrow> CachedData \<Rightarrow> bool" where
  "fresh_snapshot env w cachedData =
     (\<exists>cached. localStorage w (cacheKey (projectKey env)) = Some cached \<and>
        JSON_parse env cached = Some cachedData \<and>
        now_at_lookup env - timestamp cachedData < 3 * 60 * 60 * 1000)"

text \<open>The issues of a parsed body: \<^verbatim>\<open>data.issues || []\<close>.\<close>

definition issues_or_empty :: "JiraIssue list option \<Rightarrow> JiraIssue list" where
  "issues_or_empty data = (case data of None \<Rightarrow> [] | Some is \<Rightarrow> is)"

text \<open>A fetch that fails: the request is rejected, or the response is not a success.\<close>

definition fetch_fails :: "Env \<Rightarrow> bool" where
  "fetch_fails env =
     (case response env of Inl e \<Rightarrow> True | Inr res \<Rightarrow> \<not> ok res)"

lemma network_fetch_fresh: "network (fetch_fresh env k w) = network w @ [issues_url k]"
  by (simp add: fetch_fresh_def fetch_failed_def Let_def split: sum.split parsed.split)

lemma card_fetch_fresh_storage:
  "card (fetch_fresh env k (w\<lparr>localStorage := st\<rparr>)) = card (fetch_fresh env k w)"
  by (simp add: fetch_fresh_def fetch_failed_def Let_def split: sum.split parsed.split)

lemma fetch_fresh_console:
  "card (fetch_fresh env k (w\<lparr>console := c\<rparr>)) = card (fetch_fresh env k w) \<and>
   localStorage (fetch_fresh env k (w\<lparr>console := c\<rparr>)) = localStorage (fetch_fresh env k w) \<and>
   network (fetch_fresh env k (w\<lparr>console := c\<rparr>)) = network (fetch_fresh env k w)"
  by (simp add: fetch_fresh_def fetch_failed_def Let_def split: sum.split parsed.split)

lemma fetch_fresh_success:
  assumes "response env = Inr res" and "ok res" and "resp_json res = Inr (JsonValue data)"
  shows "card (fetch_fresh env k w) =
      \<lparr>card_issues = issues_or_empty data, loading = False,
       lastUpdated = Some (now_at_response env)\<rparr>"
    and "localStorage (fetch_fresh env k w) =
      (if storage_accepts env (localStorage w) (cacheKey (projectKey env))
            (JSON_stringify env \<lparr>issues = issues_or_empty data, timestamp = now_at_response env\<rparr>)
       then (localStorage w)(cacheKey (projectKey env) \<mapsto>
         JSON_stringify env \<lparr>issues = issues_or_empty data, timestamp = now_at_response env\<rparr>)
       else localStorage w)"
  using assms by (simp_all add: fetch_fresh_def fetch_failed_def Let_def issues_or_empty_def)

lemma fetch_fresh_failure:
  assumes "fetch_fails env"
  shows "card (fetch_fresh env k w) = (card w)\<lparr>loading := False\<rparr>"
    and "localStorage (fetch_fresh env k w) = localStorage w"
  using assms
  by (simp_all add: fetch_fresh_def fetch_failed_def fetch_fails_def Let_def split: sum.splits)

lemma fetchIssues_forced:
  "projectKey env = Some k \<Longrightarrow> k \<noteq> [] \<Longrightarrow> fetchIssues env True w = fetch_fresh env k w"
  by (simp add: fetchIssues_def truthy_def)

lemma fetchIssues_hit:
  assumes "projectKey env = Some k" and "k \<noteq> []" and "JSON_parse env [] = None"
    and "fresh_snapshot env w cachedData"
  shows "fetchIssues env False w =
     w\<lparr>card := \<lparr>card_issues = issues cachedData, loading = False,
          lastUpdated = Some (timestamp cachedData)\<rparr>\<rparr>"
proof -
  from assms(4) obtain cached where c: "localStorage w (cacheKey (projectKey env)) = Some cached"
    "JSON_parse env cached = Some cachedData"
    "now_at_lookup env - timestamp cachedData < CACHE_DURATION"
    by (auto simp: fresh_snapshot_def CACHE_DURATION_def)
  with assms(3) have "cached \<noteq> []" by auto
  with c assms(1,2) show ?thesis
    by (simp add: fetchIssues_def truthy_def)
qed

lemma fetchIssues_miss:
  assumes "projectKey env = Some k" and "k \<noteq> []"
    and "\<nexists>cachedData. fresh_snapshot env w cachedData"
  shows "\<exists>c. fetchIssues env False w = fetch_fresh env k (w\<lparr>console := c\<rparr>)"
proof (cases "localStorage w (cacheKey (projectKey env))")
  case None
  with assms(1,2) have "fetchIssues env False w = fetch_fresh env k (w\<lparr>console := console w\<rparr>)"
    by (simp add: fetchIssues_def truthy_def)
  then show ?thesis ..
next
  case (Some cached)
  show ?thesis
  proof (cases "JSON_parse env cached")
    case None
    with Some assms(1,2) have "fetchIssues env False w = fetch_fresh env k (w\<lparr>console := console w\<rparr>) \<or>
      fetchIssues env False w =
        fetch_fresh env k (w\<lparr>console := console w @ [''Invalid cache data, fetching fresh data'']\<rparr>)"
      by (simp add: fetchIssues_def truthy_def)
    then show ?thesis by blast
  next
    case parsed: (Some cachedData)
    with Some assms(3) have "\<not> now_at_lookup env - timestamp cachedData < CACHE_DURATION"
      by (auto simp: fresh_snapshot_def CACHE_DURATION_def)
    with Some parsed assms(1,2)
    have "fetchIssues env False w = fetch_fresh env k (w\<lparr>console := console w\<rparr>)"
      by (simp add: fetchIssues_def truthy_def)
    then show ?thesis ..
  qed
qed

text \<open>Example data: a cache holding one snapshot taken at time 1000 for project ABC.\<close>

definition snapshot_1000 :: CachedData where
  "snapshot_1000 = \<lparr>issues = [issue_with_status ''ABC-1'' ''Open''], timestamp = 1000\<rparr>"

definition example_env :: "int \<Rightarrow> thrown + (JiraIssue list option) Response \<Rightarrow> Env" where
  "example_env now outcome =
     \<lparr>projectKey = Some ''ABC'',
      JSON_parse = (\<lambda>s. if s = ''snapshot at 1000'' then Some snapshot_1000 else None),
      JSON_stringify = (\<lambda>d. if d = snapshot_1000 then ''snapshot at 1000'' else ''another snapshot''),
      now_at_lookup = now,
      now_at_response = now + 250,
      response = outcome,
      storage_accepts = (\<lambda>stored k v. True)\<rparr>"

definition example_browser :: "string \<Rightarrow> Browser" where
  "example_browser cached =
     \<lparr>card = \<lparr>card_issues = [], loading = True, lastUpdated = None\<rparr>,
      localStorage = [''jira-issues-ABC'' \<mapsto> cached],
      network = [],
      console = []\<rparr>"

definition success_with :: "JiraIssue list \<Rightarrow> thrown + (JiraIssue list option) Response" where
  "success_with is =
     Inr \<lparr>resp_status = 200, resp_text = Inr ''{...}'', resp_json = Inr (JsonValue (Some is))\<rparr>"

definition unauthorized :: "thrown + (JiraIssue list option) Response" where
  "unauthorized =
     Inr \<lparr>resp_status = 401, resp_text = Inr ''{...}'', resp_json = Inr (JsonValue None)\<rparr>"

text \<open>
  Claim C2. For every project key present on the entity, the non-forced fetch makes no
  network call if and only if a stored snapshot exists, parses, and is younger than
  three hours; it then shows the snapshot's issues and timestamp and changes nothing
  else. In every other case it fetches from the network: also when the snapshot is
  exactly three hours old or older. After a parse failure the card shows what it would
  show had there been no snapshot: no error reaches the user. (\<^verbatim>\<open>JSON.parse\<close> throws
  on the empty string, which is the third hypothesis.)
\<close>

theorem fetchIssues_cache_iff:
  assumes "projectKey env = Some k" and "k \<noteq> []" and "JSON_parse env [] = None"
  shows
    "(network (fetchIssues env False w) = network w \<longleftrightarrow> (\<exists>cachedData. fresh_snapshot env w cachedData)) \<and>
     (\<forall>cachedData. fresh_snapshot env w cachedData \<longrightarrow>
        fetchIssues env False w =
          w\<lparr>card := \<lparr>card_issues = issues cachedData, loading = False,
               lastUpdated = Some (timestamp cachedData)\<rparr>\<rparr>) \<and>
     ((\<nexists>cachedData. fresh_snapshot env w cachedData) \<longrightarrow>
        network (fetchIssues env False w) = network w @ [issues_url k]) \<and>
     (\<forall>cached cachedData. localStorage w (cacheKey (projectKey env)) = Some cached \<and>
        JSON_parse env cached = Some cachedData \<and>
        3 * 60 * 60 * 1000 \<le> now_at_lookup env - timestamp cachedData \<longrightarrow>
        network (fetchIssues env False w) = network w @ [issues_url k]) \<and>
     (\<forall>cached. localStorage w (cacheKey (projectKey env)) = Some cached \<and>
        JSON_parse env cached = None \<longrightarrow>
        network (fetchIssues env False w) = network w @ [issues_url k] \<and>
        card (fetchIssues env False w) =
          card (fetchIssues env False
            (w\<lparr>localStorage := (localStorage w)(cacheKey (projectKey env) := None)\<rparr>)))"
proof -
  have hit: "fetchIssues env False w =
      w\<lparr>card := \<lparr>card_issues = issues cachedData, loading = False,
           lastUpdated = Some (timestamp cachedData)\<rparr>\<rparr>"
    if "fresh_snapshot env w cachedData" for cachedData
    using fetchIssues_hit [OF assms that] .
  have miss: "network (fetchIssues env False w) = network w @ [issues_url k]"
    if "\<nexists>cachedData. fresh_snapshot env w cachedData"
    using fetchIssues_miss [OF assms(1,2) that]
    by (auto simp: fetch_fresh_console network_fetch_fresh)
  have iff: "network (fetchIssues env False w) = network w \<longleftrightarrow>
      (\<exists>cachedData. fresh_snapshot env w cachedData)"
  proof (cases "\<exists>cachedData. fresh_snapshot env w cachedData")
    case True
    then obtain cachedData where "fresh_snapshot env w cachedData" ..
    with hit [of cachedData] True show ?thesis by simp
  next
    case False
    with miss show ?thesis by simp
  qed
  have old: "network (fetchIssues env False w) = network w @ [issues_url k]"
    if "localStorage w (cacheKey (projectKey env)) = Some cached"
      "JSON_parse env cached = Some cachedData"
      "3 * 60 * 60 * 1000 \<le> now_at_lookup env - timestamp cachedData"
    for cached cachedData
  proof -
    from that have "\<nexists>cd. fresh_snapshot env w cd"
      by (auto simp: fresh_snapshot_def)
    then show ?thesis by (rule miss)
  qed
  have bad: "network (fetchIssues env False w) = network w @ [issues_url k] \<and>
      card (fetchIssues env False w) =
        card (fetchIssues env False
          (w\<lparr>localStorage := (localStorage w)(cacheKey (projectKey env) := None)\<rparr>))"
    if "localStorage w (cacheKey (projectKey env)) = Some cached" "JSON_parse env cached = None"
    for cached
  proof -
    let ?w = "w\<lparr>localStorage := (localStorage w)(cacheKey (projectKey env) := None)\<rparr>"
    from that have n: "\<nexists>cd. fresh_snapshot env w cd"
      by (auto simp: fresh_snapshot_def)
    from that assms(1,2) have "card (fetchIssues env False w) = card (fetch_fresh env k w)"
      by (simp add: fetchIssues_def truthy_def fetch_fresh_console)
    moreover have "card (fetch_fresh env k w) = card (fetch_fresh env k ?w)"
      by (simp add: card_fetch_fresh_storage)
    moreover from assms(1,2) have "fetchIssues env False ?w = fetch_fresh env k ?w"
      by (simp add: fetchIssues_def truthy_def)
    ultimately show ?thesis
      using miss [OF n] by simp
  qed
  from iff hit miss old bad show ?thesis
    by blast
qed

theorem fetchIssues_cache_witness:
  "network (fetchIssues (example_env 10800999 unauthorized) False
      (example_browser ''snapshot at 1000'')) = [] \<and>
   card (fetchIssues (example_env 10800999 unauthorized) False
      (example_browser ''snapshot at 1000'')) =
     \<lparr>card_issues = [issue_with_status ''ABC-1'' ''Open''], loading = False,
      lastUpdated = Some 1000\<rparr> \<and>
   network (fetchIssues (example_env 10801000 unauthorized) False
      (example_browser ''snapshot at 1000'')) = [issues_url ''ABC''] \<and>
   network (fetchIssues (example_env 10801001 unauthorized) False
      (example_browser ''snapshot at 1000'')) = [issues_url ''ABC''] \<and>
   network (fetchIssues (example_env 2000 unauthorized) False
      (example_browser ''not JSON'')) = [issues_url ''ABC'']"
proof -
  let ?w = "example_browser ''snapshot at 1000''"
  have env: "projectKey (example_env now outcome) = Some ''ABC''" "''ABC'' \<noteq> []"
    "JSON_parse (example_env now outcome) [] = None" for now outcome
    by (simp_all add: example_env_def)
  have stored: "localStorage ?w (cacheKey (projectKey (example_env now outcome))) =
      Some ''snapshot at 1000''"
    "JSON_parse (example_env now outcome) ''snapshot at 1000'' = Some snapshot_1000"
    "now_at_lookup (example_env now outcome) = now" for now outcome
    by (simp_all add: example_env_def example_browser_def cacheKey_def)
  have ts: "timestamp snapshot_1000 = 1000"
    by (simp add: snapshot_1000_def)
  have fresh: "fresh_snapshot (example_env 10800999 unauthorized) ?w snapshot_1000"
    by (simp add: fresh_snapshot_def stored ts)
  have old0: "3 * 60 * 60 * 1000 \<le> now_at_lookup (example_env 10801000 unauthorized)
      - timestamp snapshot_1000"
    and old1: "3 * 60 * 60 * 1000 \<le> now_at_lookup (example_env 10801001 unauthorized)
      - timestamp snapshot_1000"
    by (simp_all add: stored ts)
  have bad: "localStorage (example_browser ''not JSON'')
       (cacheKey (projectKey (example_env 2000 unauthorized))) = Some ''not JSON''"
    "JSON_parse (example_env 2000 unauthorized) ''not JSON'' = None"
    by (simp_all add: example_env_def example_browser_def cacheKey_def)
  have 1: "fetchIssues (example_env 10800999 unauthorized) False ?w =
      ?w\<lparr>card := \<lparr>card_issues = issues snapshot_1000, loading = False,
          lastUpdated = Some (timestamp snapshot_1000)\<rparr>\<rparr>"
    using fetchIssues_cache_iff [OF env, of 10800999 unauthorized ?w] fresh by blast
  have 2: "network (fetchIssues (example_env 10801000 unauthorized) False ?w) =
      network ?w @ [issues_url ''ABC'']"
    using fetchIssues_cache_iff [OF env, of 10801000 unauthorized ?w] stored old0 by blast
  have 3: "network (fetchIssues (example_env 10801001 unauthorized) False ?w) =
      network ?w @ [issues_url ''ABC'']"
    using fetchIssues_cache_iff [OF env, of 10801001 unauthorized ?w] stored old1 by blast
  have 4: "network (fetchIssues (example_env 2000 unauthorized) False (example_browser ''not JSON'')) =
      network (example_browser ''not JSON'') @ [issues_url ''ABC'']"
    using fetchIssues_cache_iff [OF env, of 2000 unauthorized "example_browser ''not JSON''"] bad
    by blast
  have n: "network (example_browser c) = []" for c
    by (simp add: example_browser_def)
  from 1 2 3 4 show ?thesis
    by (simp add: n snapshot_1000_def)
qed

text \<open>A browser whose storage is full: every write is refused.\<close>

definition full_storage_env :: Env where
  "full_storage_env =
     (example_env 2000 (success_with [issue_bare ''ABC-7'']))
       \<lparr>storage_accepts := (\<lambda>stored k v. False)\<rparr>"

text \<open>
  Claim C3, as amended. For every project key present on the entity and every cache
  state, a fresh valid snapshot included, the manual refresh makes a network call.
  When the call succeeds (a success status and a body that parses to a value other
  than \<^verbatim>\<open>null\<close>), the fetched issues and the current time become the card's issue
  list and last-updated time; and when the browser storage accepts the write, they
  are stored under the project's cache key, replacing what was there.
\<close>

theorem handleRefresh_fetches_and_overwrites:
  assumes "projectKey env = Some k" and "k \<noteq> []"
  shows
    "network (handleRefresh env w) = network w @ [issues_url k] \<and>
     (\<forall>res data. response env = Inr res \<and> ok res \<and> resp_json res = Inr (JsonValue data) \<longrightarrow>
        card (handleRefresh env w) =
          \<lparr>card_issues = issues_or_empty data, loading = False,
           lastUpdated = Some (now_at_response env)\<rparr> \<and>
        (storage_accepts env (localStorage w) (''jira-issues-'' @ k)
           (JSON_stringify env \<lparr>issues = issues_or_empty data, timestamp = now_at_response env\<rparr>)
         \<longrightarrow>
         localStorage (handleRefresh env w) =
           (localStorage w)(''jira-issues-'' @ k \<mapsto>
              JSON_stringify env \<lparr>issues = issues_or_empty data, timestamp = now_at_response env\<rparr>)))"
proof -
  have r: "handleRefresh env w = fetch_fresh env k w"
    using assms by (simp add: handleRefresh_def fetchIssues_forced)
  have key: "cacheKey (projectKey env) = ''jira-issues-'' @ k"
    using assms(1) by (simp add: cacheKey_def)
  show ?thesis
    unfolding r
    using fetch_fresh_success [of env _ _ k w]
    by (simp add: network_fetch_fresh key)
qed

theorem handleRefresh_witness:
  "network (handleRefresh (example_env 2000 (success_with [issue_bare ''ABC-7'']))
      (example_browser ''snapshot at 1000'')) = [issues_url ''ABC''] \<and>
   localStorage (handleRefresh (example_env 2000 (success_with [issue_bare ''ABC-7'']))
      (example_browser ''snapshot at 1000'')) ''jira-issues-ABC'' = Some ''another snapshot'' \<and>
   card (handleRefresh (example_env 2000 (success_with [issue_bare ''ABC-7'']))
      (example_browser ''snapshot at 1000'')) =
     \<lparr>card_issues = [issue_bare ''ABC-7''], loading = False, lastUpdated = Some 2250\<rparr>"
proof -
  let ?env = "example_env 2000 (success_with [issue_bare ''ABC-7''])"
  let ?w = "example_browser ''snapshot at 1000''"
  have env: "projectKey ?env = Some ''ABC''" "''ABC'' \<noteq> []"
    by (simp_all add: example_env_def)
  have s: "response ?env = Inr \<lparr>resp_status = 200, resp_text = Inr ''{...}'',
        resp_json = Inr (JsonValue (Some [issue_bare ''ABC-7'']))\<rparr> \<and>
      ok \<lparr>resp_status = 200, resp_text = Inr ''{...}'',
        resp_json = Inr (JsonValue (Some [issue_bare ''ABC-7'']))\<rparr> \<and>
      resp_json \<lparr>resp_status = 200, resp_text = Inr ''{...}'',
        resp_json = Inr (JsonValue (Some [issue_bare ''ABC-7'']))\<rparr> =
        Inr (JsonValue (Some [issue_bare ''ABC-7'']))"
    by (simp add: example_env_def success_with_def ok_def)
  have a: "storage_accepts ?env stored key v" for stored key v
    by (simp add: example_env_def)
  have d: "JSON_stringify ?env \<lparr>issues = [issue_bare ''ABC-7''], timestamp = 2250\<rparr> =
      ''another snapshot''"
    "now_at_response ?env = 2250"
    by (simp_all add: example_env_def snapshot_1000_def)
  from handleRefresh_fetches_and_overwrites [OF env, of ?w] s a
  have "network (handleRefresh ?env ?w) = network ?w @ [issues_url ''ABC''] \<and>
    localStorage (handleRefresh ?env ?w) =
      (localStorage ?w)(''jira-issues-'' @ ''ABC'' \<mapsto>
         JSON_stringify ?env \<lparr>issues = issues_or_empty (Some [issue_bare ''ABC-7'']),
           timestamp = now_at_response ?env\<rparr>) \<and>
    card (handleRefresh ?env ?w) =
      \<lparr>card_issues = issues_or_empty (Some [issue_bare ''ABC-7'']), loading = False,
       lastUpdated = Some (now_at_response ?env)\<rparr>"
    by blast
  then show ?thesis
    by (simp add: d example_browser_def issues_or_empty_def)
qed

text \<open>
  Without the proviso the claim fails. The refresh below succeeds on the network, and
  the card shows the fetched issue, but the storage is full: \<^verbatim>\<open>setItem\<close> throws
  inside the \<^verbatim>\<open>try\<close>, after the card was set, and the snapshot taken at 1000 stays
  under the cache key.
\<close>

theorem handleRefresh_full_storage_counterexample:
  "response full_storage_env = success_with [issue_bare ''ABC-7''] \<and>
   network (handleRefresh full_storage_env (example_browser ''snapshot at 1000'')) =
     [issues_url ''ABC''] \<and>
   card (handleRefresh full_storage_env (example_browser ''snapshot at 1000'')) =
     \<lparr>card_issues = [issue_bare ''ABC-7''], loading = False, lastUpdated = Some 2250\<rparr> \<and>
   localStorage (handleRefresh full_storage_env (example_browser ''snapshot at 1000''))
     ''jira-issues-ABC'' = Some ''snapshot at 1000'' \<and>
   localStorage (handleRefresh full_storage_env (example_browser ''snapshot at 1000''))
     ''jira-issues-ABC'' \<noteq>
     Some (JSON_stringify full_storage_env
       \<lparr>issues = [issue_bare ''ABC-7''], timestamp = now_at_response full_storage_env\<rparr>)"
  by (simp add: full_storage_env_def example_env_def success_with_def example_browser_def
      handleRefresh_def fetchIssues_def fetch_fresh_def fetch_failed_def truthy_def ok_def
      cacheKey_def Let_def snapshot_1000_def issue_bare_def issue_with_status_def)

text \<open>
  Claim C6. Whenever \<^verbatim>\<open>fetchIssues\<close>, forced or not, makes a network call and that
  call fails (the request is rejected or the response has no success status), the
  card's issue list, its last-updated time and the whole local storage are what they
  were before the call, and the loading flag ends \<open>False\<close>.
\<close>

theorem failed_fetch_changes_nothing:
  assumes "fetch_fails env"
    and "network (fetchIssues env forceRefresh w) \<noteq> network w"
  shows
    "card_issues (card (fetchIssues env forceRefresh w)) = card_issues (card w) \<and>
     lastUpdated (card (fetchIssues env forceRefresh w)) = lastUpdated (card w) \<and>
     localStorage (fetchIssues env forceRefresh w) = localStorage w \<and>
     loading (card (fetchIssues env forceRefresh w)) = False"
proof -
  from assms(2) obtain k c where "fetchIssues env forceRefresh w = fetch_fresh env k (w\<lparr>console := c\<rparr>)"
  proof (cases "projectKey env")
    case None
    with assms(2) show ?thesis by (simp add: fetchIssues_def)
  next
    case (Some k)
    with assms(2) have
      "fetchIssues env forceRefresh w = fetch_fresh env k (w\<lparr>console := console w\<rparr>) \<or>
       fetchIssues env forceRefresh w =
         fetch_fresh env k (w\<lparr>console := console w @ [''Invalid cache data, fetching fresh data'']\<rparr>)"
      by (auto simp: fetchIssues_def split: if_splits option.splits)
    with that show ?thesis by blast
  qed
  with fetch_fresh_failure [OF assms(1), of k "w\<lparr>console := c\<rparr>"] show ?thesis
    by simp
qed

theorem failed_fetch_witness:
  "card_issues (card (fetchIssues (example_env 10801001 unauthorized) False
      (example_browser ''snapshot at 1000''))) = [] \<and>
   lastUpdated (card (fetchIssues (example_env 10801001 unauthorized) False
      (example_browser ''snapshot at 1000''))) = None \<and>
   localStorage (fetchIssues (example_env 10801001 unauthorized) False
      (example_browser ''snapshot at 1000'')) ''jira-issues-ABC'' = Some ''snapshot at 1000'' \<and>
   loading (card (fetchIssues (example_env 10801001 unauthorized) False
      (example_browser ''snapshot at 1000''))) = False"
proof -
  let ?env = "example_env 10801001 unauthorized"
  let ?w = "example_browser ''snapshot at 1000''"
  have f: "fetch_fails ?env"
    by (simp add: fetch_fails_def example_env_def unauthorized_def ok_def)
  have n: "network (fetchIssues ?env False ?w) \<noteq> network ?w"
    by (simp add: fetchIssues_def example_env_def example_browser_def cacheKey_def truthy_def
        snapshot_1000_def CACHE_DURATION_def network_fetch_fresh)
  from failed_fetch_changes_nothing [OF f n] show ?thesis
    by (simp add: example_browser_def)
qed

end
